theory Spec2Isabelle
  imports Complex_Main "HOL-Library.Sublist"
begin

section \<open>JavaScript values\<close>

text \<open>
  The adapters work on what \<^verbatim>\<open>JSON.parse\<close>, \<^verbatim>\<open>YAML.parse\<close>, \<^verbatim>\<open>TOML.parse\<close> and
  \<^verbatim>\<open>jsonc.parse\<close> return: trees of objects, arrays and primitives. An object is the
  list of its own enumerable properties in the order \<^verbatim>\<open>Object.keys\<close> reports them; an
  array is the list of its elements (a hole reads as \<^verbatim>\<open>undefined\<close>) together with the
  named properties that were set on it. Documents are trees: no node is shared (YAML
  aliases are outside the model), and TOML date-times are not represented.
\<close>

datatype jsv =
    JUndefined
  | JNull
  | JBool bool
  | JNum real
  | JNaN
  | JInfinity bool
  | JStr string
  | JArr "jsv list" "(string \<times> jsv) list"
  | JObj "(string \<times> jsv) list"

type_synonym props = "(string \<times> jsv) list"

datatype js_error =
    TypeError string
  | RangeError string
  | SyntaxError string
  | SystemError string

fun message :: "js_error \<Rightarrow> string" where
  "message (TypeError m) = m"
| "message (RangeError m) = m"
| "message (SyntaxError m) = m"
| "message (SystemError m) = m"

text \<open>\<^verbatim>\<open>!v\<close> is \<open>\<not> truthy v\<close>.\<close>

fun truthy :: "jsv \<Rightarrow> bool" where
  "truthy JUndefined = False"
| "truthy JNull = False"
| "truthy (JBool b) = b"
| "truthy (JNum r) = (r \<noteq> 0)"
| "truthy JNaN = False"
| "truthy (JInfinity s) = True"
| "truthy (JStr s) = (s \<noteq> [])"
| "truthy (JArr xs ps) = True"
| "truthy (JObj ps) = True"

text \<open>\<^verbatim>\<open>a || b\<close>\<close>

definition or_else :: "jsv \<Rightarrow> jsv \<Rightarrow> jsv" where
  "or_else a b = (if truthy a then a else b)"

text \<open>
  \<^verbatim>\<open>v && Object.keys(v).length > 0\<close>, for \<open>v\<close> an object or \<^verbatim>\<open>undefined\<close>: that is all
  \<^verbatim>\<open>config.env\<close> and \<^verbatim>\<open>config.headers\<close> can be.
\<close>

fun has_entries :: "jsv \<Rightarrow> bool" where
  "has_entries (JObj ps) = (ps \<noteq> [])"
| "has_entries v = False"

subsection \<open>Property keys\<close>

text \<open>
  An array index is a canonical decimal numeral below \<open>2^32 - 1\<close>. Own property keys
  that are array indices come first, in ascending numeric order; the other string keys
  follow in the order they were created.
\<close>

definition is_digit :: "char \<Rightarrow> bool" where
  "is_digit c = (c \<in> set ''0123456789'')"

definition digit_val :: "char \<Rightarrow> nat" where
  "digit_val c = of_char c - 48"

definition dec_val :: "string \<Rightarrow> nat" where
  "dec_val s = foldl (\<lambda>n c. 10 * n + digit_val c) 0 s"

definition is_array_index :: "string \<Rightarrow> bool" where
  "is_array_index s =
     (s \<noteq> [] \<and> list_all is_digit s \<and> (s = ''0'' \<or> hd s \<noteq> CHR ''0'') \<and> dec_val s < 2 ^ 32 - 1)"

definition has_own :: "props \<Rightarrow> string \<Rightarrow> bool" where
  "has_own ps k = (k \<in> set (map fst ps))"

definition own_or_undefined :: "props \<Rightarrow> string \<Rightarrow> jsv" where
  "own_or_undefined ps k = (case map_of ps k of Some v \<Rightarrow> v | None \<Rightarrow> JUndefined)"

fun replace_own :: "string \<Rightarrow> jsv \<Rightarrow> props \<Rightarrow> props" where
  "replace_own k v [] = []"
| "replace_own k v (p # ps) = (if fst p = k then (k, v) # ps else p # replace_own k v ps)"

fun insert_index :: "string \<Rightarrow> jsv \<Rightarrow> props \<Rightarrow> props" where
  "insert_index k v [] = [(k, v)]"
| "insert_index k v (p # ps) =
     (if is_array_index (fst p) \<and> dec_val (fst p) < dec_val k
      then p # insert_index k v ps
      else (k, v) # p # ps)"

text \<open>
  \<^verbatim>\<open>obj[k] = v\<close> on an ordinary object whose prototype is \<^verbatim>\<open>Object.prototype\<close>: an
  own property keeps its place and takes the new value; \<^verbatim>\<open>__proto__\<close>, when it is not
  an own property, reaches the inherited setter and creates no property; a new array
  index is placed among the index keys; any other new key goes last.
\<close>

definition obj_set :: "props \<Rightarrow> string \<Rightarrow> jsv \<Rightarrow> props" where
  "obj_set ps k v =
     (if has_own ps k then replace_own k v ps
      else if k = ''__proto__'' then ps
      else if is_array_index k then insert_index k v ps
      else ps @ [(k, v)])"

subsection \<open>Reading and writing a property\<close>

text \<open>
  \<^verbatim>\<open>v[k]\<close> and \<^verbatim>\<open>v.k\<close>. Members inherited from the built-in prototypes are left out:
  the adapters read only \<^verbatim>\<open>mcpServers\<close>, \<^verbatim>\<open>servers\<close>, \<^verbatim>\<open>mcp_servers\<close>,
  \<^verbatim>\<open>extensions\<close>, \<^verbatim>\<open>mcp\<close>, \<^verbatim>\<open>$schema\<close> and \<^verbatim>\<open>name\<close>.
\<close>

fun get_prop :: "jsv \<Rightarrow> string \<Rightarrow> js_error + jsv" where
  "get_prop JUndefined k = Inl (TypeError ''Cannot read properties of undefined'')"
| "get_prop JNull k = Inl (TypeError ''Cannot read properties of null'')"
| "get_prop (JObj ps) k = Inr (own_or_undefined ps k)"
| "get_prop (JArr xs ps) k =
     Inr (if is_array_index k then (if dec_val k < length xs then xs ! dec_val k else JUndefined)
          else if k = ''length'' then JNum (real (length xs))
          else own_or_undefined ps k)"
| "get_prop (JStr s) k =
     Inr (if is_array_index k then (if dec_val k < length s then JStr [s ! dec_val k] else JUndefined)
          else if k = ''length'' then JNum (real (length s))
          else JUndefined)"
| "get_prop v k = Inr JUndefined"

text \<open>
  \<^verbatim>\<open>v[k] = x\<close> in strict mode (every file is an ES module). A primitive takes no
  property: the assignment throws, unless the key is \<^verbatim>\<open>__proto__\<close>, whose inherited
  setter returns without effect. On an array an index writes the element, extending the
  array with holes; \<^verbatim>\<open>length\<close> is only ever assigned an object literal here, whose
  numeric value is \<^verbatim>\<open>NaN\<close>, so that assignment throws.
\<close>

fun set_prop :: "jsv \<Rightarrow> string \<Rightarrow> jsv \<Rightarrow> js_error + jsv" where
  "set_prop JUndefined k x = Inl (TypeError ''Cannot set properties of undefined'')"
| "set_prop JNull k x = Inl (TypeError ''Cannot set properties of null'')"
| "set_prop (JObj ps) k x = Inr (JObj (obj_set ps k x))"
| "set_prop (JArr xs ps) k x =
     (if is_array_index k
      then Inr (JArr (if dec_val k < length xs then xs[dec_val k := x]
                      else xs @ replicate (dec_val k - length xs) JUndefined @ [x]) ps)
      else if k = ''length'' then Inl (RangeError ''Invalid array length'')
      else Inr (JArr xs (obj_set ps k x)))"
| "set_prop v k x =
     (if k = ''__proto__'' then Inr v else Inl (TypeError ''Cannot create property''))"

section \<open>The server descriptor\<close>

text \<open>
  \<^verbatim>\<open>types.js\<close>: a \<^verbatim>\<open>LocalServerConfig\<close> has \<^verbatim>\<open>name\<close>, \<^verbatim>\<open>type: 'stdio'\<close>,
  \<^verbatim>\<open>command\<close>, \<^verbatim>\<open>args\<close> and an optional \<^verbatim>\<open>env\<close>; a \<^verbatim>\<open>RemoteServerConfig\<close> has
  \<^verbatim>\<open>name\<close>, \<^verbatim>\<open>type: 'http'\<close>, \<^verbatim>\<open>url\<close> and optional \<^verbatim>\<open>headers\<close>. Reading a field
  the variant does not have gives \<^verbatim>\<open>undefined\<close>.
\<close>

datatype MCPServerConfig =
    LocalServerConfig string string "string list" "(string \<times> string) list option"
  | RemoteServerConfig string string "(string \<times> string) list option"

definition string_record :: "(string \<times> string) list option \<Rightarrow> jsv" where
  "string_record r =
     (case r of None \<Rightarrow> JUndefined | Some kvs \<Rightarrow> JObj (map (\<lambda>kv. (fst kv, JStr (snd kv))) kvs))"

fun config_name :: "MCPServerConfig \<Rightarrow> string" where
  "config_name (LocalServerConfig n c a e) = n"
| "config_name (RemoteServerConfig n u h) = n"

fun config_type :: "MCPServerConfig \<Rightarrow> string" where
  "config_type (LocalServerConfig n c a e) = ''stdio''"
| "config_type (RemoteServerConfig n u h) = ''http''"

fun config_command :: "MCPServerConfig \<Rightarrow> jsv" where
  "config_command (LocalServerConfig n c a e) = JStr c"
| "config_command (RemoteServerConfig n u h) = JUndefined"

fun config_args :: "MCPServerConfig \<Rightarrow> jsv" where
  "config_args (LocalServerConfig n c a e) = JArr (map JStr a) []"
| "config_args (RemoteServerConfig n u h) = JUndefined"

fun config_env :: "MCPServerConfig \<Rightarrow> jsv" where
  "config_env (LocalServerConfig n c a e) = string_record e"
| "config_env (RemoteServerConfig n u h) = JUndefined"

fun config_url :: "MCPServerConfig \<Rightarrow> jsv" where
  "config_url (LocalServerConfig n c a e) = JUndefined"
| "config_url (RemoteServerConfig n u h) = JStr u"

fun config_headers :: "MCPServerConfig \<Rightarrow> jsv" where
  "config_headers (LocalServerConfig n c a e) = JUndefined"
| "config_headers (RemoteServerConfig n u h) = string_record h"

section \<open>The transforms\<close>

text \<open>\<^verbatim>\<open>{ ...fixed, optional_key: v }\<close> with the optional key set only when \<open>v\<close> has entries.\<close>

definition with_optional :: "props \<Rightarrow> string \<Rightarrow> jsv \<Rightarrow> jsv" where
  "with_optional fixed k v = JObj (if has_entries v then obj_set fixed k v else fixed)"


definition transform_config_claude_code :: "MCPServerConfig \<Rightarrow> jsv" where
  "transform_config_claude_code config =
     (if config_type config = ''stdio''
      then with_optional
             [(''command'', config_command config),
              (''args'', or_else (config_args config) (JArr [] [])),
              (''type'', JStr (config_type config))]
             ''env'' (config_env config)
      else with_optional
             [(''url'', config_url config), (''type'', JStr (config_type config))]
             ''headers'' (config_headers config))"


definition transform_config_windsurf :: "MCPServerConfig \<Rightarrow> jsv" where
  "transform_config_windsurf config =
     (if config_type config = ''local''
      then with_optional
             [(''command'', config_command config),
              (''args'', or_else (config_args config) (JArr [] []))]
             ''env'' (config_env config)
      else with_optional [(''serverUrl'', config_url config)] ''headers'' (config_headers config))"

definition transform_config_vscode :: "MCPServerConfig \<Rightarrow> jsv" where
  "transform_config_vscode config =
     (if config_type config = ''stdio''
      then with_optional
             [(''type'', JStr ''stdio''),
              (''command'', config_command config),
              (''args'', or_else (config_args config) (JArr [] []))]
             ''env'' (config_env config)
      else with_optional
             [(''type'', JStr ''http''), (''url'', config_url config)]
             ''headers'' (config_headers config))"

definition transform_config_opencode :: "MCPServerConfig \<Rightarrow> jsv" where
  "transform_config_opencode config =
     (if config_type config = ''stdio''
      then with_optional
             [(''type'', JStr ''local''),
              (''command'',
                 JArr (config_command config #
                       (case or_else (config_args config) (JArr [] []) of
                          JArr xs ps \<Rightarrow> xs | w \<Rightarrow> [])) []),
              (''enabled'', JBool True)]
             ''environment'' (config_env config)
      else with_optional
             [(''type'', JStr ''remote''), (''url'', config_url config), (''enabled'', JBool True)]
             ''headers'' (config_headers config))"

definition transform_config_continue :: "MCPServerConfig \<Rightarrow> jsv" where
  "transform_config_continue config =
     (if config_type config = ''stdio''
      then with_optional
             [(''name'', JStr (config_name config)),
              (''type'', JStr ''stdio''),
              (''command'', config_command config),
              (''args'', or_else (config_args config) (JArr [] []))]
             ''env'' (config_env config)
      else with_optional
             [(''name'', JStr (config_name config)),
              (''type'', JStr (config_type config)),
              (''url'', config_url config)]
             ''headers'' (config_headers config))"


definition transform_config_codex :: "MCPServerConfig \<Rightarrow> jsv" where
  "transform_config_codex config =
     (if config_type config = ''local''
      then with_optional
             [(''command'', config_command config),
              (''args'', or_else (config_args config) (JArr [] []))]
             ''env'' (config_env config)
      else with_optional [(''url'', config_url config)] ''http_headers'' (config_headers config))"

section \<open>Paths and the process environment\<close>

text \<open>
  A path is the list of the segments \<^verbatim>\<open>path.join\<close> was given; a directory handed over
  as one string (the home directory, an environment variable) is one segment, and an
  empty string contributes none. \<^verbatim>\<open>path.dirname\<close> drops the last segment. Path
  resolution reads the platform name and four environment variables, and calls
  \<^verbatim>\<open>os.homedir()\<close> and \<^verbatim>\<open>process.cwd()\<close>. Each of the two calls returns a directory or
  throws: \<^verbatim>\<open>os.homedir()\<close> when no home directory can be determined for the user,
  \<^verbatim>\<open>process.cwd()\<close> when the working directory has been removed.
\<close>

type_synonym filepath = "string list"

definition seg :: "string \<Rightarrow> filepath" where
  "seg s = (if s = [] then [] else [s])"

definition dirname :: "filepath \<Rightarrow> filepath" where
  "dirname p = butlast p"

record environment =
  platform :: string
  homedir :: "js_error + filepath"
  cwd :: "js_error + filepath"
  env_HOME :: "string option"
  env_USERPROFILE :: "string option"
  env_APPDATA :: "string option"
  env_XDG_CONFIG_HOME :: "string option"

text \<open>\<^verbatim>\<open>process.env.X || d\<close>: an unset or empty variable is falsy.\<close>

definition str_or :: "string option \<Rightarrow> string \<Rightarrow> string" where
  "str_or v d = (case v of None \<Rightarrow> d | Some s \<Rightarrow> (if s = [] then d else s))"

text \<open>
  \<^verbatim>\<open>process.env.X || d\<close> where \<open>d\<close> is a directory that had to be computed: it is
  computed, and may throw, only when the variable is unset or empty.
\<close>

definition path_or :: "string option \<Rightarrow> js_error + filepath \<Rightarrow> js_error + filepath" where
  "path_or v d = (case v of None \<Rightarrow> d | Some s \<Rightarrow> (if s = [] then d else Inr [s]))"

text \<open>\<^verbatim>\<open>path.join(d, ...rest)\<close>: when computing \<open>d\<close> threw, so does the whole expression.\<close>

definition path_join :: "js_error + filepath \<Rightarrow> filepath \<Rightarrow> js_error + filepath" where
  "path_join d rest = (case d of Inl e \<Rightarrow> Inl e | Inr dir \<Rightarrow> Inr (dir @ rest))"

section \<open>The file system\<close>

text \<open>
  The state of the disk as the adapters see it through \<^verbatim>\<open>node:fs\<close>: the regular files
  with their text, the directories, the paths on which the process is refused access,
  and the calls made so far, oldest first.
\<close>

datatype fs_call =
    ExistsSync filepath
  | MkdirSync filepath
  | ReadFileSync filepath
  | WriteFileSync filepath string

record fs_state =
  files :: "filepath \<Rightarrow> string option"
  dirs :: "filepath set"
  denied :: "filepath set"
  calls :: "fs_call list"

definition existsSync :: "filepath \<Rightarrow> fs_state \<Rightarrow> bool \<times> fs_state" where
  "existsSync p fs =
     (p \<in> dirs fs \<or> files fs p \<noteq> None, fs\<lparr>calls := calls fs @ [ExistsSync p]\<rparr>)"

text \<open>
  \<^verbatim>\<open>fs.mkdirSync(p, { recursive: true })\<close> creates \<open>p\<close> and every missing ancestor; it
  throws when a segment on the way is a regular file or may not be created.
\<close>

definition mkdirSync :: "filepath \<Rightarrow> fs_state \<Rightarrow> (js_error + unit) \<times> fs_state" where
  "mkdirSync p fs =
     (let fs1 = fs\<lparr>calls := calls fs @ [MkdirSync p]\<rparr> in
      if list_ex (\<lambda>q. files fs q \<noteq> None) (prefixes p)
      then (Inl (SystemError ''ENOTDIR: not a directory''), fs1)
      else if list_ex (\<lambda>q. q \<in> denied fs \<and> q \<notin> dirs fs) (prefixes p)
      then (Inl (SystemError ''EACCES: permission denied''), fs1)
      else (Inr (), fs1\<lparr>dirs := dirs fs \<union> set (prefixes p)\<rparr>))"

definition readFileSync :: "filepath \<Rightarrow> fs_state \<Rightarrow> (js_error + string) \<times> fs_state" where
  "readFileSync p fs =
     (let fs1 = fs\<lparr>calls := calls fs @ [ReadFileSync p]\<rparr> in
      case files fs p of
        None \<Rightarrow>
          (Inl (SystemError (if p \<in> dirs fs then ''EISDIR: illegal operation on a directory''
                             else ''ENOENT: no such file or directory'')), fs1)
      | Some content \<Rightarrow>
          (if p \<in> denied fs then (Inl (SystemError ''EACCES: permission denied''), fs1)
           else (Inr content, fs1)))"

definition writeFileSync :: "filepath \<Rightarrow> string \<Rightarrow> fs_state \<Rightarrow> (js_error + unit) \<times> fs_state" where
  "writeFileSync p content fs =
     (let fs1 = fs\<lparr>calls := calls fs @ [WriteFileSync p content]\<rparr> in
      if p \<in> dirs fs then (Inl (SystemError ''EISDIR: illegal operation on a directory''), fs1)
      else if dirname p \<notin> dirs fs then (Inl (SystemError ''ENOENT: no such file or directory''), fs1)
      else if p \<in> denied fs then (Inl (SystemError ''EACCES: permission denied''), fs1)
      else (Inr (), fs1\<lparr>files := (files fs)(p \<mapsto> content)\<rparr>))"

section \<open>The codecs\<close>

text \<open>
  The parsers and printers are library code (\<^verbatim>\<open>JSON\<close>, \<^verbatim>\<open>yaml\<close>, \<^verbatim>\<open>smol-toml\<close>,
  \<^verbatim>\<open>jsonc-parser\<close>): every adapter takes them as a parameter. \<^verbatim>\<open>JSON.parse\<close>,
  \<^verbatim>\<open>YAML.parse\<close> and \<^verbatim>\<open>TOML.parse\<close> return the parsed value or the error they throw.
  \<^verbatim>\<open>jsonc.parse\<close> is fault tolerant: it does not throw on a text that is not valid, it
  returns what it could make of it (\<^verbatim>\<open>undefined\<close> when that is nothing) and reports the
  errors in an array the adapter does not pass. \<^verbatim>\<open>JSON.stringify(v, null, 2)\<close> returns a
  string for every tree that is not \<^verbatim>\<open>undefined\<close> at its root; the YAML and TOML printers
  may throw.
  A \<^verbatim>\<open>jsonc\<close> edit is an offset, a length and the replacement text; \<^verbatim>\<open>jsonc_modify\<close>
  stands for \<^verbatim>\<open>jsonc.modify\<close> with the formatting options the adapter passes (two
  spaces).
\<close>

type_synonym edit = "nat \<times> nat \<times> string"

record codecs =
  JSON_parse :: "string \<Rightarrow> js_error + jsv"
  JSON_stringify :: "jsv \<Rightarrow> string"
  YAML_parse :: "string \<Rightarrow> js_error + jsv"
  YAML_stringify :: "jsv \<Rightarrow> js_error + string"
  TOML_parse :: "string \<Rightarrow> js_error + jsv"
  TOML_stringify :: "jsv \<Rightarrow> js_error + string"
  jsonc_parse :: "string \<Rightarrow> jsv"
  jsonc_modify :: "string \<Rightarrow> string list \<Rightarrow> jsv \<Rightarrow> js_error + edit list"
  jsonc_applyEdits :: "string \<Rightarrow> edit list \<Rightarrow> js_error + string"

section \<open>Loading a config file\<close>

text \<open>
  \<^verbatim>\<open>read_config\<close> of the JSON adapters (Claude Desktop, Claude Code, Cursor, Windsurf and
  VS Code carry the same text): whatever is thrown inside the \<^verbatim>\<open>try\<close> is swallowed and
  the function falls through to \<^verbatim>\<open>return {}\<close>.
\<close>

definition read_config_json :: "codecs \<Rightarrow> filepath \<Rightarrow> fs_state \<Rightarrow> jsv \<times> fs_state" where
  "read_config_json L config_path fs =
     (case existsSync config_path fs of
        (False, fs1) \<Rightarrow> (JObj [], fs1)
      | (True, fs1) \<Rightarrow>
          (case readFileSync config_path fs1 of
             (Inl e, fs2) \<Rightarrow> (JObj [], fs2)
           | (Inr content, fs2) \<Rightarrow>
               (case JSON_parse L content of
                  Inl e \<Rightarrow> (JObj [], fs2)
                | Inr parsed \<Rightarrow> (parsed, fs2))))"

text \<open>Continue and Goose: \<^verbatim>\<open>return parsed || {}\<close>.\<close>

definition read_config_yaml :: "codecs \<Rightarrow> filepath \<Rightarrow> fs_state \<Rightarrow> jsv \<times> fs_state" where
  "read_config_yaml L config_path fs =
     (case existsSync config_path fs of
        (False, fs1) \<Rightarrow> (JObj [], fs1)
      | (True, fs1) \<Rightarrow>
          (case readFileSync config_path fs1 of
             (Inl e, fs2) \<Rightarrow> (JObj [], fs2)
           | (Inr content, fs2) \<Rightarrow>
               (case YAML_parse L content of
                  Inl e \<Rightarrow> (JObj [], fs2)
                | Inr parsed \<Rightarrow> (or_else parsed (JObj []), fs2))))"

text \<open>Codex.\<close>

definition read_config_toml :: "codecs \<Rightarrow> filepath \<Rightarrow> fs_state \<Rightarrow> jsv \<times> fs_state" where
  "read_config_toml L config_path fs =
     (case existsSync config_path fs of
        (False, fs1) \<Rightarrow> (JObj [], fs1)
      | (True, fs1) \<Rightarrow>
          (case readFileSync config_path fs1 of
             (Inl e, fs2) \<Rightarrow> (JObj [], fs2)
           | (Inr content, fs2) \<Rightarrow>
               (case TOML_parse L content of
                  Inl e \<Rightarrow> (JObj [], fs2)
                | Inr parsed \<Rightarrow> (parsed, fs2))))"

text \<open>
  OpenCode keeps the text beside the parsed value, \<^verbatim>\<open>jsonc.parse(content) || {}\<close>. The
  fallback \<^verbatim>\<open>'{}'\<close> and \<^verbatim>\<open>{}\<close> is reached when the file is not there or reading it
  throws: the parser never sends the function into its \<^verbatim>\<open>catch\<close>.
\<close>

definition read_config_opencode ::
  "codecs \<Rightarrow> filepath \<Rightarrow> fs_state \<Rightarrow> (string \<times> jsv) \<times> fs_state" where
  "read_config_opencode L config_path fs =
     (case existsSync config_path fs of
        (False, fs1) \<Rightarrow> ((''{}'', JObj []), fs1)
      | (True, fs1) \<Rightarrow>
          (case readFileSync config_path fs1 of
             (Inl e, fs2) \<Rightarrow> ((''{}'', JObj []), fs2)
           | (Inr content, fs2) \<Rightarrow>
               ((content, or_else (jsonc_parse L content) (JObj [])), fs2)))"

section \<open>Upserting the entry\<close>

text \<open>
  The mapping shape, as every adapter but Continue has it:
  \<^verbatim>\<open>if (!existing_config[key]) existing_config[key] = {};\<close>
  \<^verbatim>\<open>existing_config[key][config.name] = entry;\<close>
  The container is an object inside the document, so the document is returned with the
  updated container in the same place.
\<close>

definition upsert_mapping :: "string \<Rightarrow> string \<Rightarrow> jsv \<Rightarrow> jsv \<Rightarrow> js_error + jsv" where
  "upsert_mapping key name entry existing_config =
     (case get_prop existing_config key of
        Inl e \<Rightarrow> Inl e
      | Inr c0 \<Rightarrow>
          (case (if truthy c0 then Inr (existing_config, c0)
                 else (case set_prop existing_config key (JObj []) of
                         Inl e \<Rightarrow> Inl e
                       | Inr d \<Rightarrow> Inr (d, JObj []))) of
             Inl e \<Rightarrow> Inl e
           | Inr (doc, container) \<Rightarrow>
               (case set_prop container name entry of
                  Inl e \<Rightarrow> Inl e
                | Inr container' \<Rightarrow> set_prop doc key container')))"

text \<open>\<^verbatim>\<open>xs.findIndex(f)\<close>, with \<open>None\<close> for \<open>-1\<close>; an exception of the callback ends the scan.\<close>

fun findIndex :: "('a \<Rightarrow> js_error + bool) \<Rightarrow> 'a list \<Rightarrow> js_error + nat option" where
  "findIndex f [] = Inr None"
| "findIndex f (x # xs) =
     (case f x of
        Inl e \<Rightarrow> Inl e
      | Inr True \<Rightarrow> Inr (Some 0)
      | Inr False \<Rightarrow>
          (case findIndex f xs of
             Inl e \<Rightarrow> Inl e
           | Inr None \<Rightarrow> Inr None
           | Inr (Some i) \<Rightarrow> Inr (Some (Suc i))))"

text \<open>\<^verbatim>\<open>(server) => server.name === config.name\<close>\<close>

definition name_is :: "string \<Rightarrow> jsv \<Rightarrow> js_error + bool" where
  "name_is n server = (case get_prop server ''name'' of Inl e \<Rightarrow> Inl e | Inr v \<Rightarrow> Inr (v = JStr n))"

text \<open>The list shape of Continue: replace the element \<^verbatim>\<open>findIndex\<close> found, or push.\<close>

definition upsert_list :: "string \<Rightarrow> jsv \<Rightarrow> jsv list \<Rightarrow> js_error + jsv list" where
  "upsert_list name new_server mcp_servers =
     (case findIndex (name_is name) mcp_servers of
        Inl e \<Rightarrow> Inl e
      | Inr (Some existing_index) \<Rightarrow> Inr (mcp_servers[existing_index := new_server])
      | Inr None \<Rightarrow> Inr (mcp_servers @ [new_server]))"

definition update_continue :: "MCPServerConfig \<Rightarrow> jsv \<Rightarrow> js_error + jsv" where
  "update_continue config existing_config =
     (case get_prop existing_config ''mcpServers'' of
        Inl e \<Rightarrow> Inl e
      | Inr c0 \<Rightarrow>
          (case (if truthy c0 then Inr (existing_config, c0)
                 else (case set_prop existing_config ''mcpServers'' (JArr [] []) of
                         Inl e \<Rightarrow> Inl e
                       | Inr d \<Rightarrow> Inr (d, JArr [] []))) of
             Inl e \<Rightarrow> Inl e
           | Inr (doc, JArr xs ps) \<Rightarrow>
               (case upsert_list (config_name config) (transform_config_continue config) xs of
                  Inl e \<Rightarrow> Inl e
                | Inr xs' \<Rightarrow> set_prop doc ''mcpServers'' (JArr xs' ps))
           | Inr (doc, other) \<Rightarrow> Inl (TypeError ''mcp_servers.findIndex is not a function'')))"

text \<open>
  OpenCode edits the text. \<^verbatim>\<open>jsonc.applyEdits(text, jsonc.modify(text, path, v, options))\<close>:
\<close>

definition apply_modification ::
  "codecs \<Rightarrow> string \<Rightarrow> string list \<Rightarrow> jsv \<Rightarrow> js_error + string" where
  "apply_modification L new_content json_path v =
     (case jsonc_modify L new_content json_path v of
        Inl e \<Rightarrow> Inl e
      | Inr edits \<Rightarrow> jsonc_applyEdits L new_content edits)"

definition patch_opencode ::
  "codecs \<Rightarrow> MCPServerConfig \<Rightarrow> string \<Rightarrow> jsv \<Rightarrow> js_error + string" where
  "patch_opencode L config content existing_config =
     (case get_prop existing_config ''$schema'' of
        Inl e \<Rightarrow> Inl e
      | Inr schema \<Rightarrow>
          (case (if truthy schema then Inr content
                 else apply_modification L content [''$schema'']
                        (JStr ''https://opencode.ai/config.json'')) of
             Inl e \<Rightarrow> Inl e
           | Inr content1 \<Rightarrow>
               (case get_prop existing_config ''mcp'' of
                  Inl e \<Rightarrow> Inl e
                | Inr mcp \<Rightarrow>
                    (case (if truthy mcp then Inr content1
                           else apply_modification L content1 [''mcp''] (JObj [])) of
                       Inl e \<Rightarrow> Inl e
                     | Inr content2 \<Rightarrow>
                         apply_modification L content2 [''mcp'', config_name config]
                           (transform_config_opencode config)))))"

text \<open>\<^verbatim>\<open>new_content + (new_content.endsWith('\n') ? '' : '\n')\<close>\<close>

definition with_final_newline :: "string \<Rightarrow> string" where
  "with_final_newline s = s @ (if suffix ''\<newline>'' s then [] else ''\<newline>'')"

section \<open>Path resolution\<close>


definition get_config_path_claude_code :: "environment \<Rightarrow> bool \<Rightarrow> js_error + filepath" where
  "get_config_path_claude_code env is_global =
     (if is_global then path_join (homedir env) [''.claude.json'']
      else path_join (cwd env) [''.mcp.json''])"



text \<open>VS Code takes the home directory from the environment variables and calls nothing.\<close>

definition get_vscode_user_data_dir :: "environment \<Rightarrow> filepath" where
  "get_vscode_user_data_dir env =
     (let home = str_or (env_HOME env) (str_or (env_USERPROFILE env) []) in
      if platform env = ''darwin''
      then seg home @ [''Library'', ''Application Support'', ''Code'', ''User'']
      else if platform env = ''win32''
      then seg (str_or (env_APPDATA env) []) @ [''Code'', ''User'']
      else seg home @ [''.config'', ''Code'', ''User''])"

definition get_config_path_vscode :: "environment \<Rightarrow> bool \<Rightarrow> js_error + filepath" where
  "get_config_path_vscode env is_global =
     (if is_global then Inr (get_vscode_user_data_dir env @ [''mcp.json''])
      else path_join (cwd env) [''.vscode'', ''mcp.json''])"

text \<open>OpenCode looks on disk for \<^verbatim>\<open>opencode.jsonc\<close> and prefers it when it is there.\<close>

definition get_config_path_opencode ::
  "environment \<Rightarrow> bool \<Rightarrow> fs_state \<Rightarrow> (js_error + filepath) \<times> fs_state" where
  "get_config_path_opencode env is_global fs =
     (case (if is_global
            then path_join
                   (path_or (env_XDG_CONFIG_HOME env) (path_join (homedir env) [''.config'']))
                   [''opencode'']
            else cwd env) of
        Inl e \<Rightarrow> (Inl e, fs)
      | Inr base_dir \<Rightarrow>
          (let jsonc_path = base_dir @ [''opencode.jsonc''];
               json_path = base_dir @ [''opencode.json'']
           in case existsSync jsonc_path fs of
                (True, fs1) \<Rightarrow> (Inr jsonc_path, fs1)
              | (False, fs1) \<Rightarrow> (Inr json_path, fs1)))"




section \<open>The adapters\<close>

record AddOptions =
  is_global :: bool

record AddResult =
  success :: bool
  path :: filepath
  error :: "string option"

text \<open>
  A client function is an \<^verbatim>\<open>async\<close> function: awaited, it gives its result or throws.
\<close>

type_synonym client_fn =
  "MCPServerConfig \<Rightarrow> AddOptions \<Rightarrow> fs_state \<Rightarrow> (js_error + AddResult) \<times> fs_state"

text \<open>
  Every adapter resolves its path and then runs its steps inside
  \<^verbatim>\<open>try { ...; return { success: true, path } }\<close>
  \<^verbatim>\<open>catch (err) { return { success: false, path, error: err.message } }\<close>.
  What the steps did to the disk before one of them threw stays done. The path is
  resolved before the \<^verbatim>\<open>try\<close>: an error thrown there leaves the adapter.
\<close>

definition try_catch ::
  "filepath \<Rightarrow> (js_error + unit) \<times> fs_state \<Rightarrow> (js_error + AddResult) \<times> fs_state" where
  "try_catch config_path r =
     (case r of
        (Inr u, fs') \<Rightarrow> (Inr \<lparr>success = True, path = config_path, error = None\<rparr>, fs')
      | (Inl e, fs') \<Rightarrow>
          (Inr \<lparr>success = False, path = config_path, error = Some (message e)\<rparr>, fs'))"

text \<open>\<^verbatim>\<open>if (!fs.existsSync(dir)) { fs.mkdirSync(dir, { recursive: true }); }\<close>\<close>

definition ensure_dir :: "filepath \<Rightarrow> fs_state \<Rightarrow> (js_error + unit) \<times> fs_state" where
  "ensure_dir dir fs =
     (case existsSync dir fs of
        (True, fs1) \<Rightarrow> (Inr (), fs1)
      | (False, fs1) \<Rightarrow> mkdirSync dir fs1)"

text \<open>Read the existing config, update the document, print it, write it.\<close>

definition load_update_save ::
  "(filepath \<Rightarrow> fs_state \<Rightarrow> jsv \<times> fs_state) \<Rightarrow> (jsv \<Rightarrow> js_error + jsv) \<Rightarrow>
   (jsv \<Rightarrow> js_error + string) \<Rightarrow> filepath \<Rightarrow> fs_state \<Rightarrow> (js_error + unit) \<times> fs_state" where
  "load_update_save read_config update stringify config_path fs =
     (case read_config config_path fs of
        (existing_config, fs1) \<Rightarrow>
          (case update existing_config of
             Inl e \<Rightarrow> (Inl e, fs1)
           | Inr doc \<Rightarrow>
               (case stringify doc of
                  Inl e \<Rightarrow> (Inl e, fs1)
                | Inr content \<Rightarrow> writeFileSync config_path content fs1)))"

text \<open>\<^verbatim>\<open>JSON.stringify(existing_config, null, 2) + '\n'\<close>\<close>

definition json_text :: "codecs \<Rightarrow> jsv \<Rightarrow> js_error + string" where
  "json_text L doc = Inr (JSON_stringify L doc @ ''\<newline>'')"


text \<open>Claude Code ensures the directory only for the global config.\<close>

definition add_to_claude_code :: "codecs \<Rightarrow> environment \<Rightarrow> client_fn" where
  "add_to_claude_code L env config options fs =
     (case get_config_path_claude_code env (is_global options) of
        Inl e \<Rightarrow> (Inl e, fs)
      | Inr config_path \<Rightarrow>
          try_catch config_path
            (case (if is_global options then ensure_dir (dirname config_path) fs else (Inr (), fs)) of
               (Inl e, fs1) \<Rightarrow> (Inl e, fs1)
             | (Inr u, fs1) \<Rightarrow>
                 load_update_save (read_config_json L)
                   (upsert_mapping ''mcpServers'' (config_name config) (transform_config_claude_code config))
                   (json_text L) config_path fs1))"



definition add_to_vscode :: "codecs \<Rightarrow> environment \<Rightarrow> client_fn" where
  "add_to_vscode L env config options fs =
     (case get_config_path_vscode env (is_global options) of
        Inl e \<Rightarrow> (Inl e, fs)
      | Inr config_path \<Rightarrow>
          try_catch config_path
            (case ensure_dir (dirname config_path) fs of
               (Inl e, fs1) \<Rightarrow> (Inl e, fs1)
             | (Inr u, fs1) \<Rightarrow>
                 load_update_save (read_config_json L)
                   (upsert_mapping ''servers'' (config_name config) (transform_config_vscode config))
                   (json_text L) config_path fs1))"

definition add_to_opencode :: "codecs \<Rightarrow> environment \<Rightarrow> client_fn" where
  "add_to_opencode L env config options fs =
     (case get_config_path_opencode env (is_global options) fs of
        (Inl e, fs0) \<Rightarrow> (Inl e, fs0)
      | (Inr config_path, fs0) \<Rightarrow>
          try_catch config_path
            (case ensure_dir (dirname config_path) fs0 of
               (Inl e, fs1) \<Rightarrow> (Inl e, fs1)
             | (Inr u, fs1) \<Rightarrow>
                 (case read_config_opencode L config_path fs1 of
                    ((content, existing_config), fs2) \<Rightarrow>
                      (case patch_opencode L config content existing_config of
                         Inl e \<Rightarrow> (Inl e, fs2)
                       | Inr new_content \<Rightarrow>
                           writeFileSync config_path (with_final_newline new_content) fs2))))"




section \<open>The registry and the client loop\<close>






section \<open>Ensuring the directory, read off the calls\<close>





section \<open>The boundary of an adapter\<close>




text \<open>The container keys of the mapping adapters.\<close>

definition container_keys :: "string list" where
  "container_keys = [''mcpServers'', ''servers'', ''mcp_servers'', ''extensions'']"

section \<open>Sample inputs\<close>

text \<open>
  A fixed codec, environments and disks on which the adapters are run below. The sample
  parsers know a handful of texts, the sample printers return a placeholder, and the
  sample \<^verbatim>\<open>jsonc\<close> edit appends a note of the path it was asked to set.
\<close>

text \<open>The text \<^verbatim>\<open>{"$schema": ""}\<close>: a config of OpenCode whose \<^verbatim>\<open>$schema\<close> is the empty string.\<close>

definition empty_schema_text :: string where
  "empty_schema_text =
     ''{'' @ [CHR 0x22] @ ''$schema'' @ [CHR 0x22] @ '': '' @ [CHR 0x22, CHR 0x22] @ ''}''"

definition sample_codecs :: codecs where
  "sample_codecs =
     \<lparr>JSON_parse = (\<lambda>s. if s = ''null'' then Inr JNull
                        else if s = ''{}'' then Inr (JObj [])
                        else Inl (SyntaxError ''Unexpected token'')),
      JSON_stringify = (\<lambda>v. ''<JSON>''),
      YAML_parse = (\<lambda>s. if s = [] then Inr JNull
                        else if s = ''{}'' then Inr (JObj [])
                        else Inl (SyntaxError ''bad indentation'')),
      YAML_stringify = (\<lambda>v. Inr ''<YAML>''),
      TOML_parse = (\<lambda>s. if s = [] then Inr (JObj [])
                        else Inl (SyntaxError ''Invalid TOML document'')),
      TOML_stringify = (\<lambda>v. Inr ''<TOML>''),
      jsonc_parse = (\<lambda>s. if s = [] then JUndefined
                         else if s = empty_schema_text then JObj [(''$schema'', JStr [])]
                         else JObj []),
      jsonc_modify = (\<lambda>text json_path v.
                        Inr [(length text, 0, ''<set'' @ concat (map (\<lambda>k. '' '' @ k) json_path) @ ''>'')]),
      jsonc_applyEdits = (\<lambda>text edits.
                        Inr (foldr (\<lambda>e t. take (fst e) t @ snd (snd e) @ drop (fst e + fst (snd e)) t)
                               edits text))\<rparr>"

text \<open>
  A Linux machine, and the same machine after the working directory was removed under
  the process, where \<^verbatim>\<open>process.cwd()\<close> throws.
\<close>

definition linux_env :: environment where
  "linux_env =
     \<lparr>platform = ''linux'', homedir = Inr [''/home/u''], cwd = Inr [''/work''],
      env_HOME = Some ''/home/u'', env_USERPROFILE = None, env_APPDATA = None,
      env_XDG_CONFIG_HOME = None\<rparr>"


definition code_user_dir :: filepath where
  "code_user_dir = [''/home/u'', ''.config'', ''Code'', ''User'']"

text \<open>The descriptor of the VS Code example, and the document the example is to produce.\<close>

definition fs_server :: MCPServerConfig where
  "fs_server =
     LocalServerConfig ''fs'' ''npx'' [''-y'', ''@modelcontextprotocol/server-filesystem'', ''/tmp'']
       (Some [])"

definition fs_document :: jsv where
  "fs_document =
     JObj [(''servers'', JObj [(''fs'',
        JObj [(''type'', JStr ''stdio''), (''command'', JStr ''npx''),
              (''args'', JArr [JStr ''-y'', JStr ''@modelcontextprotocol/server-filesystem'',
                               JStr ''/tmp''] [])])])]"

text \<open>A list element with a name, as Continue stores it.\<close>

definition named :: "string \<Rightarrow> string \<Rightarrow> jsv" where
  "named n c = JObj [(''name'', JStr n), (''command'', JStr c)]"

text \<open>
  The disks: one with the home and the working directory and no file; the same with a
  config that does not parse, with a config that is \<^verbatim>\<open>null\<close>, with configs of OpenCode
  (one that does not parse, one whose \<^verbatim>\<open>$schema\<close> is empty); one on which \<^verbatim>\<open>~/.codex\<close>
  may not be created.
\<close>

definition fresh_disk :: fs_state where
  "fresh_disk = \<lparr>files = Map.empty, dirs = {[], [''/home/u''], [''/work'']}, denied = {}, calls = []\<rparr>"

definition broken_disk :: fs_state where
  "broken_disk = fresh_disk\<lparr>files := [[''/work'', ''.mcp.json''] \<mapsto> ''{oops'']\<rparr>"

definition null_disk :: fs_state where
  "null_disk = fresh_disk\<lparr>files := [[''/work'', ''.mcp.json''] \<mapsto> ''null'']\<rparr>"

definition broken_opencode_disk :: fs_state where
  "broken_opencode_disk = fresh_disk\<lparr>files := [[''/work'', ''opencode.json''] \<mapsto> ''{oops'']\<rparr>"

definition empty_schema_disk :: fs_state where
  "empty_schema_disk = fresh_disk\<lparr>files := [[''/work'', ''opencode.json''] \<mapsto> empty_schema_text]\<rparr>"


section \<open>The transforms of Windsurf and Codex\<close>

text \<open>
  C1. The claim: for a Local descriptor (type tag \<^verbatim>\<open>stdio\<close>) the Windsurf and the Codex
  transform give the local entry, \<^verbatim>\<open>command\<close> and \<^verbatim>\<open>args\<close> (and \<^verbatim>\<open>env\<close> when it has
  entries), and never a remote-only field. The code compares the tag with \<^verbatim>\<open>'local'\<close>,
  which no descriptor carries, so every Local descriptor takes the remote branch: the
  Windsurf entry is \<^verbatim>\<open>{ serverUrl: undefined }\<close> and the Codex entry is
  \<^verbatim>\<open>{ url: undefined }\<close>, whatever the command, the arguments and the environment.
\<close>

theorem local_descriptor_takes_remote_branch:
  "transform_config_windsurf (LocalServerConfig n c a e) = JObj [(''serverUrl'', JUndefined)]
   \<and> transform_config_codex (LocalServerConfig n c a e) = JObj [(''url'', JUndefined)]"
  by (simp add: transform_config_windsurf_def transform_config_codex_def with_optional_def)

section \<open>Loading a file that is missing or does not parse\<close>

lemma read_json_missing: "files fs p = None \<Longrightarrow> fst (read_config_json L p fs) = JObj []"
  by (auto simp: read_config_json_def existsSync_def readFileSync_def
      split: prod.splits sum.splits bool.splits option.splits if_splits)

lemma read_json_unreadable:
  "p \<in> denied fs \<Longrightarrow> fst (read_config_json L p fs) = JObj []"
  by (auto simp: read_config_json_def existsSync_def readFileSync_def Let_def
      split: prod.splits sum.splits bool.splits option.splits if_splits)

lemma read_json_invalid:
  "files fs p = Some c \<Longrightarrow> JSON_parse L c = Inl e \<Longrightarrow> fst (read_config_json L p fs) = JObj []"
  by (auto simp: read_config_json_def existsSync_def readFileSync_def Let_def
      split: prod.splits sum.splits bool.splits option.splits if_splits)

lemma read_yaml_missing: "files fs p = None \<Longrightarrow> fst (read_config_yaml L p fs) = JObj []"
  by (auto simp: read_config_yaml_def existsSync_def readFileSync_def
      split: prod.splits sum.splits bool.splits option.splits if_splits)

lemma read_yaml_unreadable:
  "p \<in> denied fs \<Longrightarrow> fst (read_config_yaml L p fs) = JObj []"
  by (auto simp: read_config_yaml_def existsSync_def readFileSync_def Let_def
      split: prod.splits sum.splits bool.splits option.splits if_splits)

lemma read_yaml_invalid:
  "files fs p = Some c \<Longrightarrow> YAML_parse L c = Inl e \<Longrightarrow> fst (read_config_yaml L p fs) = JObj []"
  by (auto simp: read_config_yaml_def existsSync_def readFileSync_def Let_def
      split: prod.splits sum.splits bool.splits option.splits if_splits)

lemma read_toml_missing: "files fs p = None \<Longrightarrow> fst (read_config_toml L p fs) = JObj []"
  by (auto simp: read_config_toml_def existsSync_def readFileSync_def
      split: prod.splits sum.splits bool.splits option.splits if_splits)

lemma read_toml_unreadable:
  "p \<in> denied fs \<Longrightarrow> fst (read_config_toml L p fs) = JObj []"
  by (auto simp: read_config_toml_def existsSync_def readFileSync_def Let_def
      split: prod.splits sum.splits bool.splits option.splits if_splits)

lemma read_toml_invalid:
  "files fs p = Some c \<Longrightarrow> TOML_parse L c = Inl e \<Longrightarrow> fst (read_config_toml L p fs) = JObj []"
  by (auto simp: read_config_toml_def existsSync_def readFileSync_def Let_def
      split: prod.splits sum.splits bool.splits option.splits if_splits)

lemma read_opencode_missing:
  "files fs p = None \<Longrightarrow> fst (read_config_opencode L p fs) = (''{}'', JObj [])"
  by (auto simp: read_config_opencode_def existsSync_def readFileSync_def
      split: prod.splits sum.splits bool.splits option.splits if_splits)

lemma read_opencode_unreadable:
  "p \<in> denied fs \<Longrightarrow> fst (read_config_opencode L p fs) = (''{}'', JObj [])"
  by (auto simp: read_config_opencode_def existsSync_def readFileSync_def Let_def
      split: prod.splits sum.splits bool.splits option.splits if_splits)

lemma read_opencode_text:
  "files fs p = Some c \<Longrightarrow> p \<notin> denied fs \<Longrightarrow>
   fst (read_config_opencode L p fs) = (c, or_else (jsonc_parse L c) (JObj []))"
  by (simp add: read_config_opencode_def existsSync_def readFileSync_def Let_def)

lemmas fs_defs = existsSync_def mkdirSync_def readFileSync_def writeFileSync_def ensure_dir_def
  try_catch_def load_update_save_def dirname_def path_join_def path_or_def Let_def
  bool.case_eq_if

lemmas js_defs = own_or_undefined_def obj_set_def has_own_def is_array_index_def is_digit_def
  or_else_def string_record_def with_optional_def

lemmas sample_defs = sample_codecs_def linux_env_def fresh_disk_def fs_server_def

lemma suffix_single: "suffix [c] s = (s \<noteq> [] \<and> last s = c)"
  by (cases s rule: rev_cases) (auto simp: suffix_def)

text \<open>
  C3. The claim: every load of a config file whose file is missing or does not parse
  returns the empty baseline and never throws, so an invalid file loads as a missing one
  does. The JSON, the YAML and the TOML reader do: when the file is not there, cannot be
  read, or holds a text the parser rejects, they return \<^verbatim>\<open>{}\<close>. The reader of OpenCode
  returns its baseline, the text \<^verbatim>\<open>'{}'\<close> with \<^verbatim>\<open>{}\<close>, when the file is not there or
  cannot be read; but a file it has read is returned with its own text, whatever the
  parser made of it. \<^verbatim>\<open>jsonc.parse\<close> does not throw, so a text that does not parse never
  reaches the \<^verbatim>\<open>catch\<close> whose comment says \<^verbatim>\<open>If file doesn't exist or is invalid, start fresh\<close>:
  the invalid text is kept, and it is the text the edits are then applied to. All four
  readers are total: they return on every disk.
\<close>

theorem load_fails_open_but_for_opencode:
  "((files fs p = None \<or> p \<in> denied fs \<or> (\<exists>c e. files fs p = Some c \<and> JSON_parse L c = Inl e))
      \<longrightarrow> fst (read_config_json L p fs) = JObj [])
   \<and> ((files fs p = None \<or> p \<in> denied fs \<or> (\<exists>c e. files fs p = Some c \<and> YAML_parse L c = Inl e))
      \<longrightarrow> fst (read_config_yaml L p fs) = JObj [])
   \<and> ((files fs p = None \<or> p \<in> denied fs \<or> (\<exists>c e. files fs p = Some c \<and> TOML_parse L c = Inl e))
      \<longrightarrow> fst (read_config_toml L p fs) = JObj [])
   \<and> ((files fs p = None \<or> p \<in> denied fs)
      \<longrightarrow> fst (read_config_opencode L p fs) = (''{}'', JObj []))
   \<and> (files fs p = Some content \<and> p \<notin> denied fs
      \<longrightarrow> fst (read_config_opencode L p fs)
            = (content, or_else (jsonc_parse L content) (JObj [])))"
  by (auto simp: read_json_missing read_json_invalid read_json_unreadable
      read_yaml_missing read_yaml_invalid read_yaml_unreadable
      read_toml_missing read_toml_invalid read_toml_unreadable
      read_opencode_missing read_opencode_unreadable read_opencode_text)

theorem load_fails_open_but_for_opencode_witness:
  "files broken_disk [''/work'', ''.mcp.json''] = Some ''{oops''
   \<and> JSON_parse sample_codecs ''{oops'' = Inl (SyntaxError ''Unexpected token'')
   \<and> YAML_parse sample_codecs ''{oops'' = Inl (SyntaxError ''bad indentation'')
   \<and> TOML_parse sample_codecs ''{oops'' = Inl (SyntaxError ''Invalid TOML document'')
   \<and> fst (read_config_json sample_codecs [''/work'', ''.mcp.json''] broken_disk) = JObj []
   \<and> fst (read_config_yaml sample_codecs [''/work'', ''.mcp.json''] broken_disk) = JObj []
   \<and> fst (read_config_toml sample_codecs [''/work'', ''.mcp.json''] broken_disk) = JObj []
   \<and> files fresh_disk [''/work'', ''opencode.json''] = None
   \<and> fst (read_config_opencode sample_codecs [''/work'', ''opencode.json''] fresh_disk)
       = (''{}'', JObj [])
   \<and> files broken_opencode_disk [''/work'', ''opencode.json''] = Some ''{oops''
   \<and> [''/work'', ''opencode.json''] \<notin> denied broken_opencode_disk
   \<and> fst (read_config_opencode sample_codecs [''/work'', ''opencode.json''] broken_opencode_disk)
       = (''{oops'', JObj [])
   \<and> add_to_opencode sample_codecs linux_env fs_server \<lparr>is_global = False\<rparr> broken_opencode_disk
       = (Inr \<lparr>success = True, path = [''/work'', ''opencode.json''], error = None\<rparr>,
          broken_opencode_disk
            \<lparr>files := [[''/work'', ''opencode.json''] \<mapsto>
                         ''{oops<set $schema><set mcp><set mcp fs>\<newline>''],
              calls := [ExistsSync [''/work'', ''opencode.jsonc''], ExistsSync [''/work''],
                        ExistsSync [''/work'', ''opencode.json''],
                        ReadFileSync [''/work'', ''opencode.json''],
                        WriteFileSync [''/work'', ''opencode.json'']
                          ''{oops<set $schema><set mcp><set mcp fs>\<newline>'']\<rparr>)"
proof -
  have run: "add_to_opencode sample_codecs linux_env fs_server \<lparr>is_global = False\<rparr>
        broken_opencode_disk
       = (Inr \<lparr>success = True, path = [''/work'', ''opencode.json''], error = None\<rparr>,
          broken_opencode_disk
            \<lparr>files := [[''/work'', ''opencode.json''] \<mapsto>
                         ''{oops<set $schema><set mcp><set mcp fs>\<newline>''],
              calls := [ExistsSync [''/work'', ''opencode.jsonc''], ExistsSync [''/work''],
                        ExistsSync [''/work'', ''opencode.json''],
                        ReadFileSync [''/work'', ''opencode.json''],
                        WriteFileSync [''/work'', ''opencode.json'']
                          ''{oops<set $schema><set mcp><set mcp fs>\<newline>'']\<rparr>)"
    by (simp add: add_to_opencode_def get_config_path_opencode_def read_config_opencode_def
      patch_opencode_def apply_modification_def with_final_newline_def transform_config_opencode_def
      broken_opencode_disk_def empty_schema_text_def suffix_single fs_defs js_defs sample_defs)
  from run
    load_fails_open_but_for_opencode [where fs = broken_disk and p = "[''/work'', ''.mcp.json'']"
      and L = sample_codecs]
    load_fails_open_but_for_opencode [where fs = fresh_disk and p = "[''/work'', ''opencode.json'']"
      and L = sample_codecs]
    load_fails_open_but_for_opencode [where fs = broken_opencode_disk
      and p = "[''/work'', ''opencode.json'']" and L = sample_codecs and content = "''{oops''"]
  show ?thesis
    by (simp add: broken_disk_def broken_opencode_disk_def fresh_disk_def sample_codecs_def
        empty_schema_text_def or_else_def)
qed

section \<open>A file that parses to a non-object\<close>

lemma read_json_parsed:
  "files fs p = Some c \<Longrightarrow> p \<notin> denied fs \<Longrightarrow> JSON_parse L c = Inr v \<Longrightarrow>
   read_config_json L p fs = (v, fs\<lparr>calls := calls fs @ [ExistsSync p, ReadFileSync p]\<rparr>)"
  by (simp add: read_config_json_def existsSync_def readFileSync_def Let_def)

lemma ensure_dir_existing:
  "d \<in> dirs fs \<Longrightarrow> ensure_dir d fs = (Inr (), fs\<lparr>calls := calls fs @ [ExistsSync d]\<rparr>)"
  by (simp add: ensure_dir_def existsSync_def)

text \<open>
  C10. The text \<^verbatim>\<open>null\<close> is valid JSON and parses to \<^verbatim>\<open>null\<close>. When the config file
  of Claude Code holds it, \<^verbatim>\<open>read_config\<close> returns \<^verbatim>\<open>null\<close>, not the empty object;
  reading \<^verbatim>\<open>mcpServers\<close> of it throws, and the adapter returns the failure with the
  path and the message of the exception and leaves the files as they were.
\<close>

theorem parsed_null_is_not_recovered:
  assumes "JSON_parse L ''null'' = Inr JNull"
    and "get_config_path_claude_code env (is_global options) = Inr p"
    and "files fs p = Some ''null''" and "p \<notin> denied fs" and "dirname p \<in> dirs fs"
  shows "fst (read_config_json L p fs) = JNull
    \<and> fst (add_to_claude_code L env config options fs)
        = Inr \<lparr>success = False, path = p, error = Some ''Cannot read properties of null''\<rparr>
    \<and> files (snd (add_to_claude_code L env config options fs)) = files fs"
proof -
  have r: "\<And>s. files s p = Some ''null'' \<Longrightarrow> p \<notin> denied s \<Longrightarrow>
     load_update_save (read_config_json L)
       (upsert_mapping ''mcpServers'' (config_name config) (transform_config_claude_code config))
       (json_text L) p s
     = (Inl (TypeError ''Cannot read properties of null''),
        s\<lparr>calls := calls s @ [ExistsSync p, ReadFileSync p]\<rparr>)"
    using assms(1) by (simp add: load_update_save_def read_json_parsed upsert_mapping_def)
  show ?thesis
  proof (cases "is_global options")
    case True
    with assms r show ?thesis
      by (simp add: add_to_claude_code_def try_catch_def read_json_parsed ensure_dir_existing
          Let_def)
  next
    case False
    with assms r show ?thesis
      by (simp add: add_to_claude_code_def try_catch_def read_json_parsed Let_def)
  qed
qed

theorem parsed_null_is_not_recovered_witness:
  "JSON_parse sample_codecs ''null'' = Inr JNull
   \<and> get_config_path_claude_code linux_env (is_global \<lparr>is_global = False\<rparr>)
        = Inr [''/work'', ''.mcp.json'']
   \<and> files null_disk [''/work'', ''.mcp.json''] = Some ''null''
   \<and> [''/work'', ''.mcp.json''] \<notin> denied null_disk
   \<and> dirname [''/work'', ''.mcp.json''] \<in> dirs null_disk
   \<and> fst (read_config_json sample_codecs [''/work'', ''.mcp.json''] null_disk) = JNull
   \<and> fst (add_to_claude_code sample_codecs linux_env fs_server \<lparr>is_global = False\<rparr> null_disk)
        = Inr \<lparr>success = False, path = [''/work'', ''.mcp.json''],
               error = Some ''Cannot read properties of null''\<rparr>
   \<and> files (snd (add_to_claude_code sample_codecs linux_env fs_server \<lparr>is_global = False\<rparr> null_disk))
        = files null_disk"
  using parsed_null_is_not_recovered [where L = sample_codecs and p = "[''/work'', ''.mcp.json'']"
      and env = linux_env and options = "\<lparr>is_global = False\<rparr>" and fs = null_disk
      and config = fs_server]
  by (simp add: sample_codecs_def get_config_path_claude_code_def linux_env_def null_disk_def
      fresh_disk_def dirname_def path_join_def)

section \<open>The VS Code example\<close>

lemma vscode_doc:
  "upsert_mapping ''servers'' (config_name fs_server) (transform_config_vscode fs_server) (JObj [])
   = Inr fs_document"
  by (simp add: upsert_mapping_def fs_server_def transform_config_vscode_def with_optional_def
      string_record_def or_else_def own_or_undefined_def obj_set_def has_own_def is_array_index_def is_digit_def fs_document_def)

lemma ensure_dir_eq:
  "ensure_dir d fs =
     (if d \<in> dirs fs \<or> files fs d \<noteq> None then (Inr (), fs\<lparr>calls := calls fs @ [ExistsSync d]\<rparr>)
      else mkdirSync d (fs\<lparr>calls := calls fs @ [ExistsSync d]\<rparr>))"
  by (simp add: ensure_dir_def existsSync_def)

lemma ensure_dir_keeps_files [simp]:
  "files (snd (ensure_dir d fs)) = files fs" "denied (snd (ensure_dir d fs)) = denied fs"
  by (simp_all add: ensure_dir_eq mkdirSync_def Let_def)





lemma try_catch_success:
  "fst (try_catch p r) = Inr a \<Longrightarrow> success a \<Longrightarrow> \<exists>u. fst r = Inr u"
  by (cases r) (auto simp: try_catch_def split: sum.splits)

lemma try_catch_snd [simp]: "snd (try_catch p r) = snd r"
  by (cases r) (auto simp: try_catch_def split: sum.splits)

lemma load_update_save_written:
  "fst (load_update_save rd upd str p fs) = Inr u \<Longrightarrow>
   \<exists>doc content. upd (fst (rd p fs)) = Inr doc \<and> str doc = Inr content
      \<and> files (snd (load_update_save rd upd str p fs)) p = Some content"
  by (auto simp: load_update_save_def writeFileSync_def Let_def split: prod.splits sum.splits if_splits)

text \<open>
  C8. The descriptor \<^verbatim>\<open>fs\<close> (command \<^verbatim>\<open>npx\<close>, three arguments, empty \<^verbatim>\<open>env\<close>) applied
  by the VS Code adapter at global scope, when the config file is missing or does not
  parse: the empty baseline becomes \<open>fs_document\<close>, whose \<^verbatim>\<open>servers.fs\<close> is
  \<^verbatim>\<open>{type: "stdio", command: "npx", args: [...]}\<close> with no \<^verbatim>\<open>env\<close> key, and a
  successful run leaves exactly that document, printed and followed by a newline, in
  the file.
\<close>

theorem vscode_fs_example:
  assumes "get_config_path_vscode env True = Inr p"
    and "files fs p = None \<or> (\<exists>c e. files fs p = Some c \<and> JSON_parse L c = Inl e)"
    and "fst (add_to_vscode L env fs_server \<lparr>is_global = True\<rparr> fs) = Inr r" and "success r"
  shows "upsert_mapping ''servers'' (config_name fs_server) (transform_config_vscode fs_server)
           (JObj []) = Inr fs_document
    \<and> files (snd (add_to_vscode L env fs_server \<lparr>is_global = True\<rparr> fs)) p
           = Some (JSON_stringify L fs_document @ ''\<newline>'')"
proof -
  obtain r1 fs1 where e: "ensure_dir (dirname p) fs = (r1, fs1)" by fastforce
  have f1: "files fs1 = files fs" using e ensure_dir_keeps_files(1) [of "dirname p" fs] by simp
  then have rd: "fst (read_config_json L p fs1) = JObj []"
    using assms(2) read_json_missing [of fs1 p L] read_json_invalid [of fs1 p _ L] by auto
  let ?body = "load_update_save (read_config_json L)
       (upsert_mapping ''servers'' (config_name fs_server) (transform_config_vscode fs_server))
       (json_text L) p fs1"
  from assms(1,3,4) e obtain u where ok: "r1 = Inr u" "fst ?body = Inr ()"
    by (auto simp: add_to_vscode_def dest!: try_catch_success split: sum.splits)
  from load_update_save_written [OF ok(2)] rd have "files (snd ?body) p = Some (JSON_stringify L fs_document @ ''\<newline>'')"
    by (auto simp: vscode_doc json_text_def)
  with assms(1) e ok show ?thesis
    by (simp add: add_to_vscode_def Let_def vscode_doc)
qed

theorem vscode_fs_example_witness:
  "get_config_path_vscode linux_env True = Inr (code_user_dir @ [''mcp.json''])
   \<and> files fresh_disk (code_user_dir @ [''mcp.json'']) = None
   \<and> fst (add_to_vscode sample_codecs linux_env fs_server \<lparr>is_global = True\<rparr> fresh_disk)
       = Inr \<lparr>success = True, path = code_user_dir @ [''mcp.json''], error = None\<rparr>
   \<and> success \<lparr>success = True, path = code_user_dir @ [''mcp.json''], error = None\<rparr>
   \<and> files (snd (add_to_vscode sample_codecs linux_env fs_server \<lparr>is_global = True\<rparr> fresh_disk))
        (code_user_dir @ [''mcp.json''])
      = Some (JSON_stringify sample_codecs fs_document @ ''\<newline>'')"
proof -
  have a: "get_config_path_vscode linux_env True = Inr (code_user_dir @ [''mcp.json''])"
    by (simp add: get_config_path_vscode_def get_vscode_user_data_dir_def linux_env_def code_user_dir_def str_or_def seg_def)
  have b: "files fresh_disk (code_user_dir @ [''mcp.json'']) = None" by (simp add: fresh_disk_def)
  have c: "fst (add_to_vscode sample_codecs linux_env fs_server \<lparr>is_global = True\<rparr> fresh_disk)
       = Inr \<lparr>success = True, path = code_user_dir @ [''mcp.json''], error = None\<rparr>"
    by (simp add: add_to_vscode_def ensure_dir_eq a code_user_dir_def dirname_def fresh_disk_def
        mkdirSync_def Let_def load_update_save_def read_config_json_def existsSync_def try_catch_def
        vscode_doc json_text_def writeFileSync_def)
  from vscode_fs_example [OF a _ c] a b c show ?thesis by simp
qed


section \<open>The mapping upsert\<close>

lemma replace_own_keys [simp]: "map fst (replace_own k v ps) = map fst ps"
  by (induction ps) auto

lemma replace_own_map_of: "has_own ps k \<Longrightarrow> map_of (replace_own k v ps) k = Some v"
  by (induction ps) (auto simp: has_own_def)




lemma insert_index_map_of: "\<not> has_own ps k \<Longrightarrow> map_of (insert_index k v ps) k = Some v"
  by (induction ps) (auto simp: has_own_def)


lemma proto_not_index [simp]: "\<not> is_array_index ''__proto__''"
  by (simp add: is_array_index_def is_digit_def)

lemma not_own_map_of: "\<not> has_own ps k \<Longrightarrow> map_of ps k = None"
  by (simp add: has_own_def map_of_eq_None_iff)

lemma map_of_snoc: "\<not> has_own ps k \<Longrightarrow> map_of (ps @ [(k, v)]) k = Some v"
  by (simp add: not_own_map_of map_add_def)

lemma obj_set_own: "k \<noteq> ''__proto__'' \<or> has_own ps k \<Longrightarrow> map_of (obj_set ps k v) k = Some v"
  by (auto simp: obj_set_def replace_own_map_of insert_index_map_of not_own_map_of map_add_def)

lemma has_own_replace [simp]: "has_own (replace_own k v ps) k' = has_own ps k'"
  by (simp add: has_own_def)

lemma has_own_insert_index [simp]: "has_own (insert_index k v ps) k"
  by (induction ps) (auto simp: has_own_def)

lemma has_own_snoc [simp]: "has_own (ps @ [(k, v)]) k"
  by (simp add: has_own_def)

lemma replace_own_same: "map_of ps k = Some v \<Longrightarrow> replace_own k v ps = ps"
  by (induction ps) (auto split: if_splits)

lemma obj_set_idem: "obj_set (obj_set ps k v) k v = obj_set ps k v"
proof (cases "has_own ps k")
  case True
  then show ?thesis by (simp add: obj_set_def replace_own_same replace_own_map_of)
next
  case False
  show ?thesis
  proof (cases "k = ''__proto__''")
    case True
    with False show ?thesis by (simp add: obj_set_def)
  next
    case np: False
    show ?thesis
    proof (cases "is_array_index k")
      case True
      with False np show ?thesis
        by (simp add: obj_set_def replace_own_same insert_index_map_of)
    next
      case ni: False
      with False np show ?thesis
        by (simp add: obj_set_def replace_own_same not_own_map_of map_add_def)
    qed
  qed
qed







section \<open>The list upsert\<close>

lemma findIndex_Some:
  "findIndex f xs = Inr (Some i) \<Longrightarrow>
   i < length xs \<and> f (xs ! i) = Inr True \<and> (\<forall>j<i. f (xs ! j) = Inr False)"
proof (induction xs arbitrary: i)
  case Nil
  then show ?case by simp
next
  case (Cons x xs)
  show ?case
  proof (cases "f x")
    case (Inl e)
    with Cons.prems show ?thesis by simp
  next
    case (Inr b)
    show ?thesis
    proof (cases b)
      case True
      with Inr Cons.prems show ?thesis by simp
    next
      case False
      with Inr Cons.prems obtain i' where i': "findIndex f xs = Inr (Some i')" "i = Suc i'"
        by (auto split: sum.splits option.splits)
      from Cons.IH [OF i'(1)] i'(2) Inr False show ?thesis
        by (auto simp: nth_Cons split: nat.splits)
    qed
  qed
qed

lemma findIndex_None:
  "findIndex f xs = Inr None \<Longrightarrow> \<forall>x\<in>set xs. f x = Inr False"
  by (induction xs) (auto split: sum.splits option.splits bool.splits)

lemma findIndex_first:
  "i < length xs \<Longrightarrow> f (xs ! i) = Inr True \<Longrightarrow> (\<forall>j<i. f (xs ! j) = Inr False) \<Longrightarrow>
   findIndex f xs = Inr (Some i)"
proof (induction xs arbitrary: i)
  case Nil
  then show ?case by simp
next
  case (Cons x xs)
  show ?case
  proof (cases i)
    case 0
    with Cons.prems show ?thesis by simp
  next
    case (Suc i')
    with Cons.prems have "f x = Inr False" by auto
    moreover from Suc Cons.prems have "findIndex f xs = Inr (Some i')"
      by (intro Cons.IH) auto
    ultimately show ?thesis using Suc by simp
  qed
qed

lemma upsert_list_again:
  assumes "upsert_list n new xs = Inr ys" and "name_is n new = Inr True"
  shows "upsert_list n new ys = Inr ys"
proof (cases "findIndex (name_is n) xs")
  case (Inl e)
  with assms show ?thesis by (simp add: upsert_list_def)
next
  case (Inr r)
  show ?thesis
  proof (cases r)
    case None
    with Inr assms have ys: "ys = xs @ [new]" by (simp add: upsert_list_def)
    from None Inr have "\<forall>x\<in>set xs. name_is n x = Inr False" by (simp add: findIndex_None)
    then have "findIndex (name_is n) ys = Inr (Some (length xs))"
      using assms(2) ys by (intro findIndex_first) (auto simp: nth_append)
    then show ?thesis using ys by (simp add: upsert_list_def)
  next
    case (Some i)
    with Inr assms have ys: "ys = xs[i := new]" by (simp add: upsert_list_def)
    from findIndex_Some Some Inr have i: "i < length xs" "\<forall>j<i. name_is n (xs ! j) = Inr False"
      by blast+
    then have "findIndex (name_is n) ys = Inr (Some i)"
      using assms(2) ys by (intro findIndex_first) auto
    then show ?thesis using ys by (simp add: upsert_list_def)
  qed
qed


lemma update_on_list:
  "map_of d ''mcpServers'' = Some (JArr xs ps) \<Longrightarrow>
   upsert_list (config_name config) (transform_config_continue config) xs = Inr ys \<Longrightarrow>
   update_continue config (JObj d) = Inr (JObj (replace_own ''mcpServers'' (JArr ys ps) d))"
  by (auto simp: update_continue_def own_or_undefined_def obj_set_def has_own_def
      dest: map_of_SomeD intro: rev_image_eqI)

text \<open>
  C6. The list upsert of Continue. When \<^verbatim>\<open>findIndex\<close> finds the name at \<open>i\<close>, the first
  element so named, the result is the list with the new element at \<open>i\<close>: same length,
  every other position as before; so \<open>[A, B, C]\<close> with an update of \<open>B\<close> becomes
  \<open>[A, B', C]\<close>. When no element has the name the new element is appended, and a list
  that grew is the old list with the new element at its end and had no element of that
  name. On a document whose \<^verbatim>\<open>mcpServers\<close> is an array, \<open>update_continue\<close> returns the
  document with that list in place.
\<close>

theorem list_upsert_in_place:
  "(findIndex (name_is n) xs = Inr (Some i) \<longrightarrow>
       upsert_list n new xs = Inr (xs[i := new]) \<and> i < length xs
       \<and> length (xs[i := new]) = length xs
       \<and> name_is n (xs ! i) = Inr True \<and> (\<forall>j<i. name_is n (xs ! j) = Inr False))
   \<and> (findIndex (name_is n) xs = Inr None \<longrightarrow>
       upsert_list n new xs = Inr (xs @ [new]) \<and> (\<forall>x\<in>set xs. name_is n x = Inr False))
   \<and> (name_is n A = Inr False \<and> name_is n B = Inr True \<longrightarrow>
       upsert_list n B' [A, B, C] = Inr [A, B', C])
   \<and> (upsert_list n new xs = Inr ys \<and> length ys \<noteq> length xs \<longrightarrow>
       ys = xs @ [new] \<and> (\<forall>x\<in>set xs. name_is n x = Inr False))
   \<and> (map_of d ''mcpServers'' = Some (JArr xs ps)
       \<and> upsert_list (config_name config) (transform_config_continue config) xs = Inr zs \<longrightarrow>
       update_continue config (JObj d) = Inr (JObj (replace_own ''mcpServers'' (JArr zs ps) d)))"
proof -
  have 1: "findIndex (name_is n) xs = Inr (Some i) \<Longrightarrow>
       upsert_list n new xs = Inr (xs[i := new]) \<and> i < length xs
       \<and> length (xs[i := new]) = length xs
       \<and> name_is n (xs ! i) = Inr True \<and> (\<forall>j<i. name_is n (xs ! j) = Inr False)"
    using findIndex_Some [of "name_is n" xs i] by (simp add: upsert_list_def)
  have 2: "findIndex (name_is n) xs = Inr None \<Longrightarrow>
       upsert_list n new xs = Inr (xs @ [new]) \<and> (\<forall>x\<in>set xs. name_is n x = Inr False)"
    using findIndex_None [of "name_is n" xs] by (simp add: upsert_list_def)
  have 3: "name_is n A = Inr False \<and> name_is n B = Inr True \<Longrightarrow>
       upsert_list n B' [A, B, C] = Inr [A, B', C]"
    by (simp add: upsert_list_def)
  have 4: "upsert_list n new xs = Inr ys \<and> length ys \<noteq> length xs \<Longrightarrow>
       ys = xs @ [new] \<and> (\<forall>x\<in>set xs. name_is n x = Inr False)"
  proof -
    assume a: "upsert_list n new xs = Inr ys \<and> length ys \<noteq> length xs"
    then have f: "findIndex (name_is n) xs = Inr None"
      by (auto simp: upsert_list_def split: sum.splits option.splits)
    with a 2 show ?thesis by simp
  qed
  have 5: "map_of d ''mcpServers'' = Some (JArr xs ps)
       \<and> upsert_list (config_name config) (transform_config_continue config) xs = Inr zs \<Longrightarrow>
       update_continue config (JObj d) = Inr (JObj (replace_own ''mcpServers'' (JArr zs ps) d))"
    by (simp add: update_on_list)
  from 1 2 3 4 5 show ?thesis by blast
qed

theorem list_upsert_in_place_witness:
  "findIndex (name_is ''B'') [named ''A'' ''a'', named ''B'' ''b'', named ''C'' ''c''] = Inr (Some 1)
   \<and> upsert_list ''B'' (named ''B'' ''new'') [named ''A'' ''a'', named ''B'' ''b'', named ''C'' ''c'']
       = Inr [named ''A'' ''a'', named ''B'' ''new'', named ''C'' ''c'']
   \<and> findIndex (name_is ''D'') [named ''A'' ''a'', named ''B'' ''b''] = Inr None
   \<and> upsert_list ''D'' (named ''D'' ''d'') [named ''A'' ''a'', named ''B'' ''b'']
       = Inr [named ''A'' ''a'', named ''B'' ''b'', named ''D'' ''d'']
   \<and> name_is ''B'' (named ''A'' ''a'') = Inr False \<and> name_is ''B'' (named ''B'' ''b'') = Inr True
   \<and> map_of [(''mcpServers'', JArr [named ''fs'' ''old''] [])] ''mcpServers''
       = Some (JArr [named ''fs'' ''old''] [])
   \<and> update_continue fs_server (JObj [(''mcpServers'', JArr [named ''fs'' ''old''] [])])
       = Inr (JObj [(''mcpServers'', JArr [transform_config_continue fs_server] [])])"
  using list_upsert_in_place [where n = "''B''" and i = 1 and new = "named ''B'' ''new''"
      and xs = "[named ''A'' ''a'', named ''B'' ''b'', named ''C'' ''c'']"
      and A = "named ''A'' ''a''" and B = "named ''B'' ''b''"]
    list_upsert_in_place [where n = "''D''" and new = "named ''D'' ''d''"
      and xs = "[named ''A'' ''a'', named ''B'' ''b'']"]
    list_upsert_in_place [where xs = "[named ''fs'' ''old'']" and ps = "[]"
      and d = "[(''mcpServers'', JArr [named ''fs'' ''old''] [])]" and config = fs_server
      and zs = "[transform_config_continue fs_server]"]
  by (simp add: named_def name_is_def own_or_undefined_def upsert_list_def fs_server_def)


section \<open>Idempotence\<close>

lemma extend_then_update:
  "length xs \<le> i \<Longrightarrow>
   (xs @ replicate (i - length xs) u @ [x])[i := x] = xs @ replicate (i - length xs) u @ [x]"
  by (simp add: list_update_append nth_append)

lemma set_prop_again: "set_prop t k x = Inr t' \<Longrightarrow> set_prop t' k x = Inr t'"
proof (cases t)
  case (JArr xs ps)
  assume a: "set_prop t k x = Inr t'"
  show ?thesis
  proof (cases "is_array_index k")
    case True
    show ?thesis
    proof (cases "dec_val k < length xs")
      case lt: True
      with a JArr True show ?thesis by auto
    next
      case ge: False
      with a JArr True show ?thesis by (auto simp: extend_then_update)
    qed
  next
    case False
    with a JArr show ?thesis by (auto simp: obj_set_idem split: if_splits)
  qed
qed (auto simp: obj_set_idem split: if_splits)

lemma get_after_set:
  "set_prop t k x = Inr t' \<Longrightarrow> k \<noteq> ''__proto__'' \<Longrightarrow> get_prop t' k = Inr x"
  by (cases t) (auto simp: own_or_undefined_def obj_set_own nth_append split: if_splits)

lemma set_prop_truthy: "set_prop t k x = Inr t' \<Longrightarrow> truthy t' = truthy t"
  by (cases t) (auto split: if_splits)

lemma upsert_mapping_again:
  assumes "upsert_mapping key name entry doc = Inr doc'" and "key \<noteq> ''__proto__''"
  shows "upsert_mapping key name entry doc' = Inr doc'"
proof -
  from assms(1) obtain c0 where c0: "get_prop doc key = Inr c0"
    by (auto simp: upsert_mapping_def split: sum.splits)
  from assms(1) c0 obtain d1 c1 c2 where
    s: "(if truthy c0 then Inr (doc, c0)
         else (case set_prop doc key (JObj []) of Inl e \<Rightarrow> Inl e | Inr d \<Rightarrow> Inr (d, JObj [])))
        = Inr (d1, c1)"
       "set_prop c1 name entry = Inr c2" "set_prop d1 key c2 = Inr doc'"
    by (auto simp: upsert_mapping_def split: sum.splits prod.splits)
  from s(1) have t1: "truthy c1" by (auto split: if_splits sum.splits)
  with s(2) have t2: "truthy c2" by (simp add: set_prop_truthy)
  from s(3) assms(2) have g: "get_prop doc' key = Inr c2" by (rule get_after_set)
  from s(2) have a2: "set_prop c2 name entry = Inr c2" by (rule set_prop_again)
  from s(3) have a3: "set_prop doc' key c2 = Inr doc'" by (rule set_prop_again)
  show ?thesis by (simp add: upsert_mapping_def g t2 a2 a3)
qed


lemma name_is_transform:
  "name_is (config_name config) (transform_config_continue config) = Inr True"
  by (cases config)
     (auto simp: name_is_def transform_config_continue_def with_optional_def own_or_undefined_def
        obj_set_def has_own_def is_array_index_def is_digit_def)

lemma update_continue_again:
  assumes "update_continue config doc = Inr doc'"
  shows "update_continue config doc' = Inr doc'"
proof -
  from assms obtain c0 where c0: "get_prop doc ''mcpServers'' = Inr c0"
    by (auto simp: update_continue_def split: sum.splits)
  from assms c0 obtain d1 xs ps ys where
    s: "upsert_list (config_name config) (transform_config_continue config) xs = Inr ys"
       "set_prop d1 ''mcpServers'' (JArr ys ps) = Inr doc'"
    by (auto simp: update_continue_def split: sum.splits prod.splits jsv.splits)
  from s(2) have g: "get_prop doc' ''mcpServers'' = Inr (JArr ys ps)"
    by (rule get_after_set) simp
  from s(1) have a2: "upsert_list (config_name config) (transform_config_continue config) ys = Inr ys"
    by (rule upsert_list_again) (rule name_is_transform)
  from s(2) have a3: "set_prop doc' ''mcpServers'' (JArr ys ps) = Inr doc'" by (rule set_prop_again)
  show ?thesis by (simp add: update_continue_def g a2 a3)
qed

text \<open>
  C2. Upserting the same name and entry a second time changes nothing. On a mapping
  container the second assignment returns the container of the first; on a document,
  with \<open>key\<close> the container key of an adapter (\<^verbatim>\<open>mcpServers\<close>, \<^verbatim>\<open>servers\<close>,
  \<^verbatim>\<open>mcp_servers\<close> or \<^verbatim>\<open>extensions\<close>), a document the upsert produced is returned as
  it is when the upsert is applied to it again. For Continue,
  whose entry always carries the descriptor's name, the second application finds the
  element the first one wrote and replaces it by itself: the list, and with it the
  document, stay as they are and nothing is appended.
\<close>

theorem upsert_twice_is_upsert_once:
  "obj_set (obj_set ps name entry) name entry = obj_set ps name entry
   \<and> (key \<in> set container_keys \<and> upsert_mapping key name entry doc = Inr doc'
        \<longrightarrow> upsert_mapping key name entry doc' = Inr doc')
   \<and> (upsert_list (config_name config) (transform_config_continue config) xs = Inr ys
        \<longrightarrow> upsert_list (config_name config) (transform_config_continue config) ys = Inr ys)
   \<and> (update_continue config cdoc = Inr cdoc' \<longrightarrow> update_continue config cdoc' = Inr cdoc')"
  using upsert_mapping_again [of key name entry doc doc'] update_continue_again [of config cdoc cdoc']
    upsert_list_again [of "config_name config" "transform_config_continue config" xs ys]
  by (auto simp: obj_set_idem name_is_transform container_keys_def)

theorem upsert_twice_is_upsert_once_witness:
  "''mcpServers'' \<in> set container_keys
   \<and> upsert_mapping ''mcpServers'' ''fs'' (transform_config_claude_code fs_server) (JObj [])
       = Inr (JObj [(''mcpServers'', JObj [(''fs'', transform_config_claude_code fs_server)])])
   \<and> upsert_mapping ''mcpServers'' ''fs'' (transform_config_claude_code fs_server)
        (JObj [(''mcpServers'', JObj [(''fs'', transform_config_claude_code fs_server)])])
       = Inr (JObj [(''mcpServers'', JObj [(''fs'', transform_config_claude_code fs_server)])])
   \<and> upsert_list (config_name fs_server) (transform_config_continue fs_server) []
       = Inr [transform_config_continue fs_server]
   \<and> upsert_list (config_name fs_server) (transform_config_continue fs_server)
        [transform_config_continue fs_server]
       = Inr [transform_config_continue fs_server]
   \<and> update_continue fs_server (JObj [])
       = Inr (JObj [(''mcpServers'', JArr [transform_config_continue fs_server] [])])
   \<and> update_continue fs_server
        (JObj [(''mcpServers'', JArr [transform_config_continue fs_server] [])])
       = Inr (JObj [(''mcpServers'', JArr [transform_config_continue fs_server] [])])"
proof -
  have m: "upsert_mapping ''mcpServers'' ''fs'' (transform_config_claude_code fs_server) (JObj [])
       = Inr (JObj [(''mcpServers'', JObj [(''fs'', transform_config_claude_code fs_server)])])"
    by (simp add: upsert_mapping_def own_or_undefined_def obj_set_def has_own_def
        is_array_index_def is_digit_def)
  have l: "upsert_list (config_name fs_server) (transform_config_continue fs_server) []
       = Inr [transform_config_continue fs_server]"
    by (simp add: upsert_list_def)
  have c: "update_continue fs_server (JObj [])
       = Inr (JObj [(''mcpServers'', JArr [transform_config_continue fs_server] [])])"
    by (simp add: update_continue_def l own_or_undefined_def obj_set_def has_own_def
        is_array_index_def is_digit_def)
  from m l c
    upsert_twice_is_upsert_once [where key = "''mcpServers''" and name = "''fs''"
      and entry = "transform_config_claude_code fs_server" and doc = "JObj []"
      and doc' = "JObj [(''mcpServers'', JObj [(''fs'', transform_config_claude_code fs_server)])]"
      and config = fs_server and xs = "[]" and ys = "[transform_config_continue fs_server]"
      and cdoc = "JObj []"
      and cdoc' = "JObj [(''mcpServers'', JArr [transform_config_continue fs_server] [])]"]
  show ?thesis by (simp add: container_keys_def)
qed


section \<open>The text edits of OpenCode\<close>

text \<open>
  C7. The claim: OpenCode patches the text it read, in the order the edits are issued,
  setting the \<^verbatim>\<open>$schema\<close> key first and only if it is absent, then the \<^verbatim>\<open>mcp\<close> key only
  if it is absent, then the entry at \<^verbatim>\<open>[mcp, name]\<close>. The code, under the comment
  \<^verbatim>\<open>Add $schema if not present\<close>, tests \<^verbatim>\<open>!existing_config.$schema\<close>, which also holds
  for a key that is present with a falsy value. For a config whose \<^verbatim>\<open>$schema\<close> is the
  empty string the patch is, with every codec, the \<^verbatim>\<open>$schema\<close> edit, then the \<^verbatim>\<open>mcp\<close>
  edit, then the entry: the key that is there is set again. The run on the sample disk
  shows it end to end; the sample \<^verbatim>\<open>jsonc\<close> edit appends a note of each path it is
  asked to set, so the text written shows the three edits in their order.
\<close>

theorem schema_set_although_present:
  "has_own [(''$schema'', JStr [])] ''$schema''
   \<and> patch_opencode L config content (JObj [(''$schema'', JStr [])])
       = (case apply_modification L content [''$schema'']
                 (JStr ''https://opencode.ai/config.json'') of
            Inl e \<Rightarrow> Inl e
          | Inr content1 \<Rightarrow>
              (case apply_modification L content1 [''mcp''] (JObj []) of
                 Inl e \<Rightarrow> Inl e
               | Inr content2 \<Rightarrow>
                   apply_modification L content2 [''mcp'', config_name config]
                     (transform_config_opencode config)))
   \<and> get_config_path_opencode linux_env False empty_schema_disk
       = (Inr [''/work'', ''opencode.json''],
          empty_schema_disk\<lparr>calls := [ExistsSync [''/work'', ''opencode.jsonc'']]\<rparr>)
   \<and> fst (read_config_opencode sample_codecs [''/work'', ''opencode.json''] empty_schema_disk)
       = (empty_schema_text, JObj [(''$schema'', JStr [])])
   \<and> patch_opencode sample_codecs fs_server empty_schema_text (JObj [(''$schema'', JStr [])])
       = Inr (empty_schema_text @ ''<set $schema><set mcp><set mcp fs>'')
   \<and> fst (add_to_opencode sample_codecs linux_env fs_server \<lparr>is_global = False\<rparr> empty_schema_disk)
       = Inr \<lparr>success = True, path = [''/work'', ''opencode.json''], error = None\<rparr>
   \<and> files (snd (add_to_opencode sample_codecs linux_env fs_server \<lparr>is_global = False\<rparr>
                    empty_schema_disk)) [''/work'', ''opencode.json'']
       = Some (empty_schema_text @ ''<set $schema><set mcp><set mcp fs>\<newline>'')"
proof -
  have general: "patch_opencode L config content (JObj [(''$schema'', JStr [])])
       = (case apply_modification L content [''$schema'']
                 (JStr ''https://opencode.ai/config.json'') of
            Inl e \<Rightarrow> Inl e
          | Inr content1 \<Rightarrow>
              (case apply_modification L content1 [''mcp''] (JObj []) of
                 Inl e \<Rightarrow> Inl e
               | Inr content2 \<Rightarrow>
                   apply_modification L content2 [''mcp'', config_name config]
                     (transform_config_opencode config)))"
    by (simp add: patch_opencode_def own_or_undefined_def split: sum.splits)
  have sample: "has_own [(''$schema'', JStr [])] ''$schema''
   \<and> get_config_path_opencode linux_env False empty_schema_disk
       = (Inr [''/work'', ''opencode.json''],
          empty_schema_disk\<lparr>calls := [ExistsSync [''/work'', ''opencode.jsonc'']]\<rparr>)
   \<and> fst (read_config_opencode sample_codecs [''/work'', ''opencode.json''] empty_schema_disk)
       = (empty_schema_text, JObj [(''$schema'', JStr [])])
   \<and> patch_opencode sample_codecs fs_server empty_schema_text (JObj [(''$schema'', JStr [])])
       = Inr (empty_schema_text @ ''<set $schema><set mcp><set mcp fs>'')
   \<and> fst (add_to_opencode sample_codecs linux_env fs_server \<lparr>is_global = False\<rparr> empty_schema_disk)
       = Inr \<lparr>success = True, path = [''/work'', ''opencode.json''], error = None\<rparr>
   \<and> files (snd (add_to_opencode sample_codecs linux_env fs_server \<lparr>is_global = False\<rparr>
                    empty_schema_disk)) [''/work'', ''opencode.json'']
       = Some (empty_schema_text @ ''<set $schema><set mcp><set mcp fs>\<newline>'')"
    by (simp add: add_to_opencode_def get_config_path_opencode_def read_config_opencode_def
      patch_opencode_def apply_modification_def with_final_newline_def transform_config_opencode_def
      empty_schema_disk_def empty_schema_text_def suffix_single fs_defs js_defs sample_defs)
  from general sample show ?thesis by blast
qed

section \<open>Ensuring the directory\<close>


lemma mkdir_whatever_the_calls [simp]:
  "fst (mkdirSync d (fs\<lparr>calls := cs\<rparr>)) = fst (mkdirSync d fs)"
  by (simp add: mkdirSync_def Let_def)



























section \<open>The boundary of the adapters and the client loop\<close>


























end
